theory Spec2Isabelle
  imports Complex_Main
begin

section \<open>The scan session of \<^verbatim>\<open>src/src/App.jsx\<close>\<close>

text \<open>
  The component \<^verbatim>\<open>App\<close> keeps six pieces of React state (lines 11-16), a camera
  stream reference (line 21) and, through the browser, interval timers, object URLs and
  pending promises. Handlers run to completion on the event loop; an \<^verbatim>\<open>await\<close> ends
  the running part of a handler and the rest of it runs as a later event. The model is a
  record of all of this and one function per handler, or per part of a handler between two
  suspension points. Numbers are JavaScript numbers, modelled as reals; the value of
  \<^verbatim>\<open>Math.random()\<close> and the URL returned by \<^verbatim>\<open>URL.createObjectURL\<close> are
  supplied by the environment as arguments.
\<close>

subsection \<open>Data\<close>

datatype mode = Idle | Upload | Camera | Scanning | Result

text \<open>What \<^verbatim>\<open>resp.json()\<close> may produce: any JSON value. \<^verbatim>\<open>JNull\<close> is also
  the JavaScript \<^verbatim>\<open>null\<close> that \<^verbatim>\<open>result\<close> starts with.\<close>

datatype json =
    JNull
  | JBool bool
  | JNum real
  | JStr string
  | JArr "json list"
  | JObj "(string \<times> json) list"

text \<open>JavaScript truthiness of a JSON value, as tested by \<^verbatim>\<open>result &&\<close> (line 319)
  and \<^verbatim>\<open>!result\<close> (line 153).\<close>

fun truthy :: "json \<Rightarrow> bool" where
  "truthy JNull = False"
| "truthy (JBool b) = b"
| "truthy (JNum x) = (x \<noteq> 0)"
| "truthy (JStr s) = (s \<noteq> [])"
| "truthy (JArr xs) = True"
| "truthy (JObj kvs) = True"

record app =
  mode :: mode
  fileName :: string
  previewURL :: string
  result :: json
  progress :: real
  error :: string
  streamRef :: bool
  cameraPending :: nat
  timers :: "nat list"
  nextTimer :: nat
  clearCalls :: "nat list"
  objectURLs :: "string list"
  inflight :: "nat list"
  toBlobPending :: nat

text \<open>
  \<^item> \<open>mode\<close> \dots \<open>error\<close>: the \<^verbatim>\<open>useState\<close> cells, lines 11-16;
  \<^item> \<open>streamRef\<close>: whether \<^verbatim>\<open>streamRef.current\<close> holds a stream;
    \<open>cameraPending\<close>: calls of \<^verbatim>\<open>getUserMedia\<close> that have not settled;
  \<^item> \<open>timers\<close>: the ids of the active intervals; \<open>nextTimer\<close>: the id the next
    \<^verbatim>\<open>setInterval\<close> returns; \<open>clearCalls\<close>: every id passed to
    \<^verbatim>\<open>clearInterval\<close>, in order;
  \<^item> \<open>objectURLs\<close>: the object URLs created and not revoked;
  \<^item> \<open>inflight\<close>: the calls of \<^verbatim>\<open>uploadToAPI\<close> suspended at an \<^verbatim>\<open>await\<close>, each
    named by the interval id its \<^verbatim>\<open>endProgress\<close> closure holds;
  \<^item> \<open>toBlobPending\<close>: \<^verbatim>\<open>canvas.toBlob\<close> callbacks not yet delivered.
\<close>

definition App_init :: app where
  "App_init = \<lparr> mode = Idle, fileName = [], previewURL = [], result = JNull,
      progress = 0, error = [], streamRef = False, cameraPending = 0,
      timers = [], nextTimer = 0, clearCalls = [], objectURLs = [],
      inflight = [], toBlobPending = 0 \<rparr>"

subsection \<open>Browser primitives\<close>

definition setInterval :: "app \<Rightarrow> nat \<times> app" where
  "setInterval s =
     (nextTimer s, s\<lparr>timers := timers s @ [nextTimer s], nextTimer := Suc (nextTimer s)\<rparr>)"

definition clearInterval :: "nat \<Rightarrow> app \<Rightarrow> app" where
  "clearInterval i s =
     s\<lparr>timers := removeAll i (timers s), clearCalls := clearCalls s @ [i]\<rparr>"

definition createObjectURL :: "string \<Rightarrow> app \<Rightarrow> app" where
  "createObjectURL u s = s\<lparr>objectURLs := u # objectURLs s\<rparr>"

definition revokeObjectURL :: "string \<Rightarrow> app \<Rightarrow> app" where
  "revokeObjectURL u s = s\<lparr>objectURLs := removeAll u (objectURLs s)\<rparr>"

text \<open>\<^verbatim>\<open>Math.round\<close>: the nearest integer, a tie going up.\<close>

definition Math_round :: "real \<Rightarrow> int" where
  "Math_round x = \<lfloor>x + 1 / 2\<rfloor>"

text \<open>The decimal digits of a number, as a template literal prints \<^verbatim>\<open>resp.status\<close>.\<close>

function dec :: "nat \<Rightarrow> string" where
  "dec n = (if n < 10 then [char_of (48 + n)]
            else dec (n div 10) @ [char_of (48 + n mod 10)])"
  by pat_completeness auto
termination
  by (relation "measure (\<lambda>n. n)") auto

declare dec.simps [simp del]

subsection \<open>Camera (lines 35-63)\<close>

datatype camera_result = StreamPlaying | PlayRejected | MediaRejected

definition camera_message :: string where
  "camera_message =
     ''Unable to access camera. Please allow permissions or upload an image instead.''"

text \<open>\<^verbatim>\<open>startCamera\<close> up to its first \<^verbatim>\<open>await\<close>.\<close>

definition startCamera :: "app \<Rightarrow> app" where
  "startCamera s = s\<lparr>error := [], cameraPending := Suc (cameraPending s)\<rparr>"

text \<open>The rest of \<^verbatim>\<open>startCamera\<close>, once \<^verbatim>\<open>getUserMedia\<close> (and \<^verbatim>\<open>play\<close>) have
  settled: the \<^verbatim>\<open>try\<close> body stores the stream, the \<^verbatim>\<open>catch\<close> sets the message.\<close>

definition startCamera_settle :: "camera_result \<Rightarrow> app \<Rightarrow> app" where
  "startCamera_settle r s =
     (case r of
        StreamPlaying \<Rightarrow> s\<lparr>streamRef := True, cameraPending := cameraPending s - 1\<rparr>
      | PlayRejected \<Rightarrow> s\<lparr>error := camera_message, cameraPending := cameraPending s - 1\<rparr>
      | MediaRejected \<Rightarrow> s\<lparr>error := camera_message, cameraPending := cameraPending s - 1\<rparr>)"

definition stopCamera :: "app \<Rightarrow> app" where
  "stopCamera s = (if streamRef s then s\<lparr>streamRef := False\<rparr> else s)"

text \<open>The effect of lines 35-42, run after a render in which \<open>mode\<close> changed.\<close>

definition modeEffect :: "app \<Rightarrow> app" where
  "modeEffect s = (if mode s = Camera then startCamera s else stopCamera s)"

subsection \<open>Progress simulation (lines 65-75)\<close>

text \<open>The interval callback of \<^verbatim>\<open>beginScanUI\<close> for the interval \<open>i\<close>, with \<open>r\<close> the
  value of \<^verbatim>\<open>Math.random()\<close>. Product and sum are exact here; the code computes them in
  doubles and rounds, so the two agree where the double arithmetic is exact, as it is for
  the multiples of \<open>1/2\<close> used in the scenarios below, and may differ by a rounding
  elsewhere.\<close>

definition tick :: "nat \<Rightarrow> real \<Rightarrow> app \<Rightarrow> app" where
  "tick i r s =
     (if 96 \<le> progress s then (clearInterval i s)\<lparr>progress := 96\<rparr>
      else s\<lparr>progress := progress s + r * 7\<rparr>)"

text \<open>\<^verbatim>\<open>beginScanUI\<close> returns the closure \<^verbatim>\<open>() => clearInterval(id)\<close>; the model returns
  the id, and \<open>endProgress\<close> is the call of that closure.\<close>

definition beginScanUI :: "app \<Rightarrow> nat \<times> app" where
  "beginScanUI s = setInterval (s\<lparr>mode := Scanning, progress := 0\<rparr>)"

definition endProgress :: "nat \<Rightarrow> app \<Rightarrow> app" where
  "endProgress i s = clearInterval i s"

subsection \<open>Submission (lines 79-102)\<close>

text \<open>What the awaited calls of \<^verbatim>\<open>uploadToAPI\<close> deliver: \<^verbatim>\<open>fetch\<close> rejects with a
  message, or resolves with a status and then \<^verbatim>\<open>resp.json()\<close> rejects with a message
  or resolves with the parsed body.\<close>

datatype fetch_result = FetchRejected string | Response nat "string + json"

definition resp_ok :: "nat \<Rightarrow> bool" where
  "resp_ok st = (200 \<le> st \<and> st \<le> 299)"

text \<open>\<^verbatim>\<open>uploadToAPI\<close> up to the \<^verbatim>\<open>await fetch\<close> of line 85.\<close>

definition uploadToAPI_begin :: "app \<Rightarrow> app" where
  "uploadToAPI_begin s =
     (case beginScanUI s of
        (i, s1) \<Rightarrow> s1\<lparr>error := [], inflight := inflight s1 @ [i]\<rparr>)"

text \<open>The \<^verbatim>\<open>catch\<close> block, lines 95-98, for an exception with message \<open>msg\<close>.\<close>

definition scan_catch :: "string \<Rightarrow> app \<Rightarrow> app" where
  "scan_catch msg s =
     s\<lparr>error := (if msg = [] then ''Something went wrong while scanning'' else msg),
       mode := Idle\<rparr>"

text \<open>The rest of the \<^verbatim>\<open>try\<close> body from line 86 on, an exception going to the
  \<^verbatim>\<open>catch\<close> block. The delay of line 90 changes no state.\<close>

definition scan_try :: "fetch_result \<Rightarrow> app \<Rightarrow> app" where
  "scan_try fr s =
     (case fr of
        FetchRejected msg \<Rightarrow> scan_catch msg s
      | Response st body \<Rightarrow>
          if \<not> resp_ok st then scan_catch (''Scan failed ('' @ dec st @ '')'') s
          else (case body of
                  Inl msg \<Rightarrow> scan_catch msg s
                | Inr data \<Rightarrow> s\<lparr>result := data, progress := 100, mode := Result\<rparr>))"

text \<open>\<^verbatim>\<open>try\<close>/\<^verbatim>\<open>catch\<close> and then the \<^verbatim>\<open>finally\<close> block of lines 99-101.\<close>

definition uploadToAPI_settle :: "nat \<Rightarrow> fetch_result \<Rightarrow> app \<Rightarrow> app" where
  "uploadToAPI_settle i fr s =
     (case endProgress i (scan_try fr s) of
        s1 \<Rightarrow> s1\<lparr>inflight := removeAll i (inflight s1)\<rparr>)"

subsection \<open>Acquisition and reset (lines 104-150)\<close>

text \<open>\<open>f\<close> is the name of \<^verbatim>\<open>files?.[0]\<close>, if there is one; \<open>u\<close> the URL that
  \<^verbatim>\<open>URL.createObjectURL\<close> returns.\<close>

definition onPickFile :: "string option \<Rightarrow> string \<Rightarrow> app \<Rightarrow> app" where
  "onPickFile f u s =
     (case f of
        None \<Rightarrow> s
      | Some name \<Rightarrow>
          uploadToAPI_begin ((createObjectURL u (s\<lparr>fileName := name\<rparr>))\<lparr>previewURL := u\<rparr>))"

definition onDrop :: "string option \<Rightarrow> string \<Rightarrow> app \<Rightarrow> app" where
  "onDrop f u s =
     (case f of
        None \<Rightarrow> s
      | Some name \<Rightarrow>
          uploadToAPI_begin ((createObjectURL u (s\<lparr>fileName := name\<rparr>))\<lparr>previewURL := u\<rparr>))"

text \<open>\<^verbatim>\<open>onCapture\<close> draws the frame and asks for the blob; the callback runs later.
  The video element is always rendered (line 243), so \<^verbatim>\<open>videoRef.current\<close> is set.\<close>

definition onCapture :: "app \<Rightarrow> app" where
  "onCapture s = s\<lparr>toBlobPending := Suc (toBlobPending s)\<rparr>"

text \<open>The \<^verbatim>\<open>toBlob\<close> callback, lines 133-140; \<open>b\<close> is \<open>None\<close> for a null blob and
  otherwise the object URL created for the blob.\<close>

definition onCapture_blob :: "string option \<Rightarrow> app \<Rightarrow> app" where
  "onCapture_blob b s =
     (case b of
        None \<Rightarrow> s
      | Some u \<Rightarrow>
          uploadToAPI_begin
            ((createObjectURL u s)\<lparr>previewURL := u, fileName := ''camera-capture.png'',
               mode := Camera\<rparr>))"

definition resetAll :: "app \<Rightarrow> app" where
  "resetAll s =
     s\<lparr>mode := Idle, result := JNull, progress := 0, error := [], previewURL := [],
       fileName := []\<rparr>"

text \<open>\<^verbatim>\<open>downloadReport\<close>, lines 152-167: \<open>u\<close> is the object URL created for the report.
  The URL is handed to an anchor, the anchor is clicked, and the URL is revoked.\<close>

definition downloadReport :: "string \<Rightarrow> app \<Rightarrow> app" where
  "downloadReport u s =
     (if \<not> truthy (result s) then s else revokeObjectURL u (createObjectURL u s))"

subsection \<open>The user-visible percentage (lines 376-392)\<close>

definition Scanning_percent :: "real \<Rightarrow> int" where
  "Scanning_percent p = min 100 (Math_round p)"

subsection \<open>The event loop\<close>

text \<open>
  One event is one run-to-completion step. An event fires only when the page offers it:
  the buttons of lines 248-255 depend on \<open>mode\<close>, the reset buttons are inside the modal
  of line 319, a cleared interval no longer ticks, \<^verbatim>\<open>Math.random()\<close> lies in \<open>[0, 1)\<close>, and
  a promise settles once. The file input and the drop zone are always there.
\<close>

datatype event =
    PickFile "string option" string
  | DropFile "string option" string
  | ClickOpenCamera
  | ClickCloseCamera
  | ClickCapture
  | BlobReady "string option"
  | CameraSettled camera_result
  | Tick nat real
  | Settle nat fetch_result
  | ClickReset
  | ClickDownload string

fun handle :: "event \<Rightarrow> app \<Rightarrow> app" where
  "handle (PickFile f u) s = onPickFile f u s"
| "handle (DropFile f u) s = onDrop f u s"
| "handle ClickOpenCamera s = s\<lparr>mode := Camera\<rparr>"
| "handle ClickCloseCamera s = (if mode s = Camera then s\<lparr>mode := Idle\<rparr> else s)"
| "handle ClickCapture s = (if mode s = Camera then onCapture s else s)"
| "handle (BlobReady b) s =
     (if 0 < toBlobPending s
      then onCapture_blob b (s\<lparr>toBlobPending := toBlobPending s - 1\<rparr>) else s)"
| "handle (CameraSettled r) s =
     (if 0 < cameraPending s then startCamera_settle r s else s)"
| "handle (Tick i r) s =
     (if i \<in> set (timers s) \<and> 0 \<le> r \<and> r < 1 then tick i r s else s)"
| "handle (Settle i fr) s =
     (if i \<in> set (inflight s) then uploadToAPI_settle i fr s else s)"
| "handle ClickReset s =
     (if mode s = Result \<and> truthy (result s) then resetAll s else s)"
| "handle (ClickDownload u) s =
     (if mode s = Result \<and> truthy (result s) then downloadReport u s else s)"

text \<open>After the handler, React renders once (the state updates of one handler are
  batched, the last \<^verbatim>\<open>setMode\<close> wins) and runs the effect of lines 35-42 if \<open>mode\<close> is
  not what it was at the previous render.\<close>

definition step :: "event \<Rightarrow> app \<Rightarrow> app" where
  "step e s =
     (case handle e s of
        s1 \<Rightarrow> if mode s1 \<noteq> mode s then modeEffect s1 else s1)"

fun run :: "event list \<Rightarrow> app \<Rightarrow> app" where
  "run [] s = s"
| "run (e # es) s = run es (step e s)"

subsection \<open>Failed requests and stored bodies\<close>

text \<open>The outcomes that take \<^verbatim>\<open>uploadToAPI\<close> into its \<^verbatim>\<open>catch\<close> block: a rejected
  \<^verbatim>\<open>fetch\<close>, a status outside 200-299, or a body that does not parse.\<close>

fun scan_failed :: "fetch_result \<Rightarrow> bool" where
  "scan_failed (FetchRejected msg) = True"
| "scan_failed (Response st body) = (if resp_ok st then isl body else True)"

text \<open>The bodies that a run stores: those of the responses with a 2xx status whose body
  parses.\<close>

fun parsed_body :: "event \<Rightarrow> json list" where
  "parsed_body (Settle i (Response st (Inr d))) = (if resp_ok st then [d] else [])"
| "parsed_body e = []"

definition parsed_bodies :: "event list \<Rightarrow> json list" where
  "parsed_bodies es = concat (map parsed_body es)"

text \<open>In mode \<open>result\<close> the stored result is one of \<open>B\<close>.\<close>

definition result_among :: "json set \<Rightarrow> app \<Rightarrow> bool" where
  "result_among B s = (if mode s = Result then result s \<in> B else True)"

subsection \<open>Scenarios\<close>

definition leaf_body :: json where
  "leaf_body = JObj [(''detected'', JBool True), (''label'', JStr ''Organic''),
     (''confidence'', JNum (87 / 100)), (''suggestions'', JArr [JStr ''Compost this item''])]"

definition can_body :: json where
  "can_body = JObj [(''detected'', JBool True), (''label'', JStr ''Metal''),
     (''confidence'', JNum (1 / 2)), (''suggestions'', JArr [])]"

definition pick_leaf :: event where
  "pick_leaf = PickFile (Some ''leaf.png'') ''blob:a''"

definition drop_can :: event where
  "drop_can = DropFile (Some ''can.png'') ''blob:b''"

text \<open>The session right after \<^verbatim>\<open>leaf.png\<close> was picked on a fresh page.\<close>

definition scanning_leaf :: app where
  "scanning_leaf = step pick_leaf App_init"

text \<open>Two files are submitted one after the other, the first response arrives, the user
  closes the result; the second request is still in flight.\<close>

definition reset_with_late :: "event list" where
  "reset_with_late =
     [pick_leaf, drop_can, Settle 0 (Response 200 (Inr leaf_body)), ClickReset]"

text \<open>The same session after 28 ticks that each drew \<^verbatim>\<open>Math.random() = 0.5\<close>.\<close>

definition overshot_leaf :: app where
  "overshot_leaf = run (replicate 28 (Tick 0 (1 / 2))) scanning_leaf"

text \<open>\<^verbatim>\<open>leaf.png\<close> was picked and the endpoint answered 200 with \<open>leaf_body\<close>.\<close>

definition shown_leaf :: app where
  "shown_leaf = run [pick_leaf, Settle 0 (Response 200 (Inr leaf_body))] App_init"

text \<open>Two files are submitted one after the other; the first request succeeds, the
  second one comes back with status 500.\<close>

definition stale_result :: "event list" where
  "stale_result =
     [pick_leaf, drop_can, Settle 0 (Response 200 (Inr leaf_body)),
      Settle 1 (Response 500 (Inl []))]"

text \<open>\<^verbatim>\<open>leaf.png\<close> was picked and the endpoint answered 200 with the body \<^verbatim>\<open>null\<close>.\<close>

definition null_body_run :: "event list" where
  "null_body_run = [pick_leaf, Settle 0 (Response 200 (Inr JNull))]"

section \<open>Evaluation lemmas\<close>

lemmas handler_defs = onPickFile_def onDrop_def onCapture_def onCapture_blob_def resetAll_def
  uploadToAPI_begin_def uploadToAPI_settle_def scan_try_def scan_catch_def beginScanUI_def
  endProgress_def tick_def setInterval_def clearInterval_def createObjectURL_def
  revokeObjectURL_def startCamera_def startCamera_settle_def stopCamera_def modeEffect_def
  resp_ok_def downloadReport_def

lemmas scenario_defs = leaf_body_def can_body_def pick_leaf_def drop_can_def

lemma scanning_leaf_eq:
  "scanning_leaf =
     \<lparr> mode = Scanning, fileName = ''leaf.png'', previewURL = ''blob:a'', result = JNull,
       progress = 0, error = [], streamRef = False, cameraPending = 0,
       timers = [0], nextTimer = 1, clearCalls = [], objectURLs = [''blob:a''],
       inflight = [0], toBlobPending = 0 \<rparr>"
  by (simp add: scanning_leaf_def pick_leaf_def step_def handler_defs App_init_def)

lemma reset_with_late_eq:
  "run reset_with_late App_init =
     \<lparr> mode = Idle, fileName = [], previewURL = [], result = JNull,
       progress = 0, error = [], streamRef = False, cameraPending = 0,
       timers = [1], nextTimer = 2, clearCalls = [0], objectURLs = [''blob:b'', ''blob:a''],
       inflight = [1], toBlobPending = 0 \<rparr>"
  by (simp add: reset_with_late_def scenario_defs step_def handler_defs App_init_def)

section \<open>Re-entrancy\<close>

text \<open>
  C1, as the specification states it: in mode \<open>scanning\<close> an acquisition (pickFile,
  dropFile, captureFrame) is rejected, no submission starts and the session is unchanged.
  The handlers of lines 104-141 never read \<open>mode\<close>. Here a file is dropped while the
  first one is being scanned: the session changes and a second request and a second timer
  exist.
\<close>

theorem C1_counterexample:
  "mode scanning_leaf = Scanning \<and> step drop_can scanning_leaf \<noteq> scanning_leaf
   \<and> inflight scanning_leaf = [0] \<and> inflight (step drop_can scanning_leaf) = [0, 1]
   \<and> timers (step drop_can scanning_leaf) = [0, 1]"
  by (simp add: scanning_leaf_eq drop_can_def step_def handler_defs)

text \<open>
  C1, amended: in mode \<open>scanning\<close> an acquisition that carries a file (or a blob) is
  accepted. It starts a further submission with a timer of its own, sets progress to 0,
  clears the error, replaces file name and preview, and leaves the mode at \<open>scanning\<close>.
  Only an acquisition without a file (or with a null blob) leaves the session unchanged.
\<close>

theorem C1_acquisition_while_scanning:
  assumes "mode s = Scanning"
  shows "inflight (step (PickFile (Some n) u) s) = inflight s @ [nextTimer s]
    \<and> timers (step (PickFile (Some n) u) s) = timers s @ [nextTimer s]
    \<and> mode (step (PickFile (Some n) u) s) = Scanning
    \<and> progress (step (PickFile (Some n) u) s) = 0
    \<and> error (step (PickFile (Some n) u) s) = []
    \<and> fileName (step (PickFile (Some n) u) s) = n
    \<and> previewURL (step (PickFile (Some n) u) s) = u
    \<and> step (DropFile (Some n) u) s = step (PickFile (Some n) u) s
    \<and> onCapture_blob (Some u) s = onPickFile (Some ''camera-capture.png'') u s
    \<and> step (PickFile None u) s = s \<and> step (DropFile None u) s = s
    \<and> onCapture_blob None s = s"
proof -
  have same: "onDrop (Some n) u s = onPickFile (Some n) u s"
    by (simp add: onDrop_def onPickFile_def)
  have stays: "mode (onPickFile (Some n) u s) = mode s"
    using assms by (simp add: handler_defs)
  have picked: "step (PickFile (Some n) u) s = onPickFile (Some n) u s"
    using stays by (simp add: step_def)
  have dropped: "step (DropFile (Some n) u) s = onPickFile (Some n) u s"
    using stays same by (simp add: step_def)
  have ignored: "step (PickFile None u) s = s" "step (DropFile None u) s = s"
    by (simp_all add: step_def onPickFile_def onDrop_def)
  have blob: "onCapture_blob (Some u) s = onPickFile (Some ''camera-capture.png'') u s"
    "onCapture_blob None s = s"
    by (simp_all add: handler_defs)
  have started: "inflight (onPickFile (Some n) u s) = inflight s @ [nextTimer s]
      \<and> timers (onPickFile (Some n) u s) = timers s @ [nextTimer s]
      \<and> progress (onPickFile (Some n) u s) = 0
      \<and> error (onPickFile (Some n) u s) = []
      \<and> fileName (onPickFile (Some n) u s) = n
      \<and> previewURL (onPickFile (Some n) u s) = u"
    by (simp add: handler_defs)
  from started stays assms ignored show ?thesis
    by (simp add: picked dropped blob)
qed

theorem C1_acquisition_while_scanning_witness:
  "mode scanning_leaf = Scanning
   \<and> inflight (step (PickFile (Some ''can.png'') ''blob:b'') scanning_leaf) = [0, 1]
   \<and> timers (step (PickFile (Some ''can.png'') ''blob:b'') scanning_leaf) = [0, 1]
   \<and> fileName (step (PickFile (Some ''can.png'') ''blob:b'') scanning_leaf) = ''can.png''"
proof -
  have scanning: "mode scanning_leaf = Scanning"
    by (simp add: scanning_leaf_eq)
  from C1_acquisition_while_scanning [OF scanning, of "''can.png''" "''blob:b''"] scanning
  show ?thesis by (simp add: scanning_leaf_eq)
qed

section \<open>A response that arrives after a reset\<close>

text \<open>
  C2, as the specification states it: a result that arrives after the session was reset
  is discarded and sets neither result nor progress nor mode. \<^verbatim>\<open>uploadToAPI\<close> holds no
  token and \<^verbatim>\<open>resetAll\<close> leaves the request alone. After \<open>reset_with_late\<close> the session
  is reset and request 1 is in flight; its response then fills the reset session.
\<close>

theorem C2_counterexample:
  "mode (run reset_with_late App_init) = Idle
   \<and> result (run reset_with_late App_init) = JNull
   \<and> progress (run reset_with_late App_init) = 0
   \<and> result (step (Settle 1 (Response 200 (Inr can_body))) (run reset_with_late App_init))
       = can_body
   \<and> progress (step (Settle 1 (Response 200 (Inr can_body))) (run reset_with_late App_init))
       = 100
   \<and> mode (step (Settle 1 (Response 200 (Inr can_body))) (run reset_with_late App_init))
       = Result"
  by (simp add: reset_with_late_eq step_def handler_defs)

text \<open>
  C2, amended: a submission still in flight when the session is reset is applied when its
  response arrives, like any other: a 2xx response with a body that parses stores the body
  in result, sets progress to 100 and mode to \<open>result\<close>.
\<close>

theorem C2_late_result_applied:
  assumes "resp_ok st" and "i \<in> set (inflight s)"
  shows "result (step (Settle i (Response st (Inr d))) (resetAll s)) = d
    \<and> progress (step (Settle i (Response st (Inr d))) (resetAll s)) = 100
    \<and> mode (step (Settle i (Response st (Inr d))) (resetAll s)) = Result"
  using assms by (simp add: step_def handler_defs)

theorem C2_late_result_applied_witness:
  "resp_ok 200 \<and> 1 \<in> set (inflight (step drop_can scanning_leaf))
   \<and> result (step (Settle 1 (Response 200 (Inr can_body)))
        (resetAll (step drop_can scanning_leaf))) = can_body
   \<and> mode (step (Settle 1 (Response 200 (Inr can_body)))
        (resetAll (step drop_can scanning_leaf))) = Result"
proof -
  have ok: "resp_ok 200"
    by (simp add: resp_ok_def)
  have pending: "1 \<in> set (inflight (step drop_can scanning_leaf))"
    by (simp add: scanning_leaf_eq drop_can_def step_def handler_defs)
  from C2_late_result_applied [OF ok pending, of can_body] ok pending
  show ?thesis by simp
qed

section \<open>The progress ramp\<close>

lemma overshot_leaf_eq: "overshot_leaf = scanning_leaf\<lparr>progress := 98\<rparr>"
  by (simp add: overshot_leaf_def scanning_leaf_eq step_def handler_defs eval_nat_numeral)

text \<open>
  C3: before the response has been accepted, progress never exceeds 96. The callback of
  lines 69-72 tests the bound before it adds the increment, not after, so a tick that
  starts below 96 can end above it. With \<^verbatim>\<open>Math.random() = 0.5\<close> at every tick the 27th
  tick gives 94.5 and the 28th gives 98, while the request is still in flight.
\<close>

theorem C3_progress_above_cap:
  "progress overshot_leaf = 98 \<and> \<not> progress overshot_leaf \<le> 96
   \<and> mode overshot_leaf = Scanning \<and> inflight overshot_leaf = [0]"
  by (simp add: overshot_leaf_eq scanning_leaf_eq)

text \<open>
  C4: within one submission the progress values do not decrease. After the overshoot
  above, the next tick finds \<open>p \<ge> 96\<close> and returns 96: progress goes from 98 down to 96,
  the request still in flight.
\<close>

theorem C4_progress_drops:
  "progress overshot_leaf = 98 \<and> progress (step (Tick 0 (1 / 2)) overshot_leaf) = 96
   \<and> inflight (step (Tick 0 (1 / 2)) overshot_leaf) = [0]"
  by (simp add: overshot_leaf_eq scanning_leaf_eq step_def handler_defs)

section \<open>Cancelling the timer\<close>

text \<open>
  C5, as the specification states it: the timer of a submission is cancelled exactly
  once, through the handle that \<^verbatim>\<open>beginScanUI\<close> returned, and nowhere else. The interval
  callback cancels its own interval once progress has reached 96 (line 70). Here that
  happens while the request is in flight, and the \<^verbatim>\<open>finally\<close> block then cancels the
  same interval a second time.
\<close>

theorem C5_counterexample:
  "inflight (step (Tick 0 (1 / 2)) overshot_leaf) = [0]
   \<and> timers (step (Tick 0 (1 / 2)) overshot_leaf) = []
   \<and> clearCalls (step (Tick 0 (1 / 2)) overshot_leaf) = [0]
   \<and> clearCalls (step (Settle 0 (Response 200 (Inr leaf_body)))
        (step (Tick 0 (1 / 2)) overshot_leaf)) = [0, 0]"
  by (simp add: overshot_leaf_eq scanning_leaf_eq step_def handler_defs)

text \<open>
  C5, amended: whatever the outcome, the end of a submission calls the cancellation
  handle exactly once, and after it the submission's interval is not active. The handle
  is not the only place where ticking is cancelled: a tick that finds progress at 96 or
  more cancels its own interval, a tick that finds it below 96 cancels nothing.
\<close>

theorem C5_timer_cancellation:
  "clearCalls (uploadToAPI_settle i fr s) = clearCalls s @ [i]
   \<and> i \<notin> set (timers (uploadToAPI_settle i fr s))
   \<and> (96 \<le> progress s \<longrightarrow>
        clearCalls (tick i r s) = clearCalls s @ [i] \<and> i \<notin> set (timers (tick i r s)))
   \<and> (progress s < 96 \<longrightarrow>
        clearCalls (tick i r s) = clearCalls s \<and> timers (tick i r s) = timers s)"
  by (cases fr) (auto simp: handler_defs split: sum.splits)

theorem C5_timer_cancellation_witness:
  "96 \<le> progress overshot_leaf \<and> progress scanning_leaf < 96
   \<and> clearCalls (tick 0 (1 / 2) overshot_leaf) = clearCalls overshot_leaf @ [0]
   \<and> 0 \<notin> set (timers (tick 0 (1 / 2) overshot_leaf))
   \<and> clearCalls (tick 0 (1 / 2) scanning_leaf) = clearCalls scanning_leaf
   \<and> timers (tick 0 (1 / 2) scanning_leaf) = timers scanning_leaf
   \<and> clearCalls (uploadToAPI_settle 0 (Response 500 (Inl [])) scanning_leaf)
       = clearCalls scanning_leaf @ [0]
   \<and> 0 \<notin> set (timers (uploadToAPI_settle 0 (Response 500 (Inl [])) scanning_leaf))"
proof -
  have hi: "96 \<le> progress overshot_leaf"
    by (simp add: overshot_leaf_eq)
  have lo: "progress scanning_leaf < 96"
    by (simp add: scanning_leaf_eq)
  from C5_timer_cancellation [of 0 "Response 500 (Inl [])" overshot_leaf "1 / 2"]
    C5_timer_cancellation [of 0 "Response 500 (Inl [])" scanning_leaf "1 / 2"] hi lo
  show ?thesis
    by blast
qed

section \<open>A camera that cannot be opened\<close>

text \<open>
  C6, as the specification states it: when the camera cannot be opened, mode is what it
  was before the camera was requested and \<open>camera\<close> is not entered. The page requests the
  camera by setting mode to \<open>camera\<close> (lines 196 and 249); \<^verbatim>\<open>startCamera\<close> runs as the
  effect of that change. On a fresh page the request is made in \<open>idle\<close>, and after the
  refusal the mode is \<open>camera\<close>.
\<close>

theorem C6_counterexample:
  "mode App_init = Idle
   \<and> mode (run [ClickOpenCamera, CameraSettled MediaRejected] App_init) = Camera
   \<and> error (run [ClickOpenCamera, CameraSettled MediaRejected] App_init) = camera_message"
  by (simp add: App_init_def step_def handler_defs)

text \<open>
  C6, amended: a refused camera leaves mode as it was when \<^verbatim>\<open>startCamera\<close> was called
  and sets the error to the camera message; nothing is thrown, and a file picked
  afterwards is submitted as usual. \<^verbatim>\<open>startCamera\<close> is called because mode has become
  \<open>camera\<close>: a request made in any other mode ends, after the refusal, in mode \<open>camera\<close>
  with that message.
\<close>

theorem C6_camera_failure:
  "mode (startCamera_settle MediaRejected s) = mode s
   \<and> error (startCamera_settle MediaRejected s) = camera_message
   \<and> mode (step (PickFile (Some n) u) (startCamera_settle MediaRejected s)) = Scanning
   \<and> (mode s \<noteq> Camera \<longrightarrow>
        mode (run [ClickOpenCamera, CameraSettled MediaRejected] s) = Camera
        \<and> error (run [ClickOpenCamera, CameraSettled MediaRejected] s) = camera_message)"
  by (simp add: step_def handler_defs)

theorem C6_camera_failure_witness:
  "mode App_init \<noteq> Camera
   \<and> mode (run [ClickOpenCamera, CameraSettled MediaRejected] App_init) = Camera
   \<and> error (run [ClickOpenCamera, CameraSettled MediaRejected] App_init) = camera_message"
proof -
  have idle: "mode App_init \<noteq> Camera"
    by (simp add: App_init_def)
  from C6_camera_failure [of App_init] idle show ?thesis
    by blast
qed

section \<open>Reset\<close>

lemma shown_leaf_eq:
  "shown_leaf =
     \<lparr> mode = Result, fileName = ''leaf.png'', previewURL = ''blob:a'', result = leaf_body,
       progress = 100, error = [], streamRef = False, cameraPending = 0,
       timers = [], nextTimer = 1, clearCalls = [0], objectURLs = [''blob:a''],
       inflight = [], toBlobPending = 0 \<rparr>"
  by (simp add: shown_leaf_def pick_leaf_def step_def handler_defs App_init_def)

text \<open>
  C7: leaving \<open>result\<close> by reset clears result, error and progress and releases the
  preview handle. \<^verbatim>\<open>resetAll\<close> clears the three fields and forgets the preview URL, but
  it does not revoke it: the object URL of the preview is still alive after the reset.
  \<^verbatim>\<open>downloadReport\<close> does revoke the object URL it creates.
\<close>

theorem C7_reset_keeps_object_url:
  "mode shown_leaf = Result \<and> previewURL shown_leaf = ''blob:a''
   \<and> ''blob:a'' \<in> set (objectURLs shown_leaf)
   \<and> mode (step ClickReset shown_leaf) = Idle
   \<and> result (step ClickReset shown_leaf) = JNull
   \<and> error (step ClickReset shown_leaf) = []
   \<and> progress (step ClickReset shown_leaf) = 0
   \<and> previewURL (step ClickReset shown_leaf) = []
   \<and> ''blob:a'' \<in> set (objectURLs (step ClickReset shown_leaf))
   \<and> ''blob:r'' \<notin> set (objectURLs (step (ClickDownload ''blob:r'') shown_leaf))"
  by (simp add: shown_leaf_eq leaf_body_def step_def handler_defs)

section \<open>Success\<close>

lemma modeEffect_session:
  "mode (modeEffect s) = mode s \<and> result (modeEffect s) = result s"
  by (simp add: modeEffect_def startCamera_def stopCamera_def)

lemma handle_result_among:
  assumes "result_among B s" and "set (parsed_body e) \<subseteq> B"
  shows "result_among B (handle e s)"
proof (cases e)
  case (Settle i fr)
  show ?thesis
  proof (cases fr)
    case (FetchRejected msg)
    with Settle assms show ?thesis
      by (simp add: result_among_def handler_defs)
  next
    case (Response st body)
    with Settle assms show ?thesis
      by (cases body) (auto simp: result_among_def handler_defs)
  qed
qed (use assms in \<open>auto simp: result_among_def handler_defs
       split: option.splits camera_result.splits if_splits\<close>)

lemma step_result_among:
  assumes "result_among B s" and "set (parsed_body e) \<subseteq> B"
  shows "result_among B (step e s)"
proof -
  have "result_among B (handle e s)"
    using assms by (rule handle_result_among)
  then show ?thesis
    by (simp add: step_def result_among_def modeEffect_session)
qed

lemma run_result_among:
  "result_among B s \<Longrightarrow> set (parsed_bodies es) \<subseteq> B \<Longrightarrow> result_among B (run es s)"
proof (induction es arbitrary: s)
  case Nil
  then show ?case by simp
next
  case (Cons e es)
  from Cons.prems(2) have here: "set (parsed_body e) \<subseteq> B"
    and later: "set (parsed_bodies es) \<subseteq> B"
    by (simp_all add: parsed_bodies_def)
  from Cons.prems(1) here have "result_among B (step e s)"
    by (rule step_result_among)
  then have "result_among B (run es (step e s))"
    using later by (rule Cons.IH)
  then show ?case by simp
qed

text \<open>
  C8, as the specification states it: a submission that ends in success leaves progress
  at 100, the parsed ScanResult in result and mode at \<open>result\<close>, and the session is never
  in mode \<open>result\<close> without a stored ScanResult. Lines 91-94 store whatever
  \<^verbatim>\<open>resp.json()\<close> delivers and do not inspect it. When the endpoint answers 200 with the
  body \<^verbatim>\<open>null\<close>, the session is in mode \<open>result\<close> with result null; the modal of line 319
  is then not rendered.
\<close>

theorem C8_counterexample:
  "mode (run null_body_run App_init) = Result
   \<and> progress (run null_body_run App_init) = 100
   \<and> result (run null_body_run App_init) = JNull
   \<and> \<not> truthy (result (run null_body_run App_init))"
  by (simp add: null_body_run_def pick_leaf_def step_def handler_defs App_init_def)

text \<open>
  C8, amended: a submission that ends in success (a 2xx status and a body that parses)
  leaves progress at 100, the parsed body in result and mode at \<open>result\<close>. In every run
  from the fresh page, a session in mode \<open>result\<close> holds the parsed body of one of the
  run's 2xx responses. The body is stored as it comes: the stored result is present
  (truthy, not null) when every parsed body of the run is, as every JSON object is.
\<close>

theorem C8_success_stores_result:
  "(resp_ok st \<longrightarrow>
      progress (uploadToAPI_settle i (Response st (Inr d)) s) = 100
      \<and> result (uploadToAPI_settle i (Response st (Inr d)) s) = d
      \<and> mode (uploadToAPI_settle i (Response st (Inr d)) s) = Result)
   \<and> (mode (run es App_init) = Result \<longrightarrow>
        result (run es App_init) \<in> set (parsed_bodies es))
   \<and> (list_all truthy (parsed_bodies es) \<longrightarrow> mode (run es App_init) = Result \<longrightarrow>
        truthy (result (run es App_init)) \<and> result (run es App_init) \<noteq> JNull)"
proof -
  have "result_among (set (parsed_bodies es)) App_init"
    by (simp add: result_among_def App_init_def)
  then have "result_among (set (parsed_bodies es)) (run es App_init)"
    by (rule run_result_among) simp
  then have stored: "mode (run es App_init) = Result \<Longrightarrow>
      result (run es App_init) \<in> set (parsed_bodies es)"
    by (simp add: result_among_def)
  have present: "truthy (result (run es App_init)) \<and> result (run es App_init) \<noteq> JNull"
    if "list_all truthy (parsed_bodies es)" and "mode (run es App_init) = Result"
  proof -
    from that stored have "truthy (result (run es App_init))"
      by (simp add: list_all_iff)
    then show ?thesis by auto
  qed
  have success: "progress (uploadToAPI_settle i (Response st (Inr d)) s) = 100
      \<and> result (uploadToAPI_settle i (Response st (Inr d)) s) = d
      \<and> mode (uploadToAPI_settle i (Response st (Inr d)) s) = Result" if "resp_ok st"
    using that by (simp add: uploadToAPI_settle_def scan_try_def endProgress_def clearInterval_def)
  from success stored present show ?thesis by blast
qed

theorem C8_success_stores_result_witness:
  "resp_ok 200
   \<and> list_all truthy (parsed_bodies [pick_leaf, Settle 0 (Response 200 (Inr leaf_body))])
   \<and> mode (run [pick_leaf, Settle 0 (Response 200 (Inr leaf_body))] App_init) = Result
   \<and> truthy (result (run [pick_leaf, Settle 0 (Response 200 (Inr leaf_body))] App_init))
   \<and> result (run [pick_leaf, Settle 0 (Response 200 (Inr leaf_body))] App_init)
       \<in> set (parsed_bodies [pick_leaf, Settle 0 (Response 200 (Inr leaf_body))])
   \<and> progress (uploadToAPI_settle 0 (Response 200 (Inr leaf_body)) scanning_leaf) = 100
   \<and> result (uploadToAPI_settle 0 (Response 200 (Inr leaf_body)) scanning_leaf) = leaf_body"
proof -
  have ok: "resp_ok 200"
    by (simp add: resp_ok_def)
  have bodies: "list_all truthy (parsed_bodies [pick_leaf, Settle 0 (Response 200 (Inr leaf_body))])"
    by (simp add: parsed_bodies_def pick_leaf_def leaf_body_def resp_ok_def)
  have shown: "mode (run [pick_leaf, Settle 0 (Response 200 (Inr leaf_body))] App_init) = Result"
    using shown_leaf_eq by (simp add: shown_leaf_def)
  from C8_success_stores_result [of 200 0 leaf_body scanning_leaf
      "[pick_leaf, Settle 0 (Response 200 (Inr leaf_body))]"] ok bodies shown
  show ?thesis by blast
qed

section \<open>Failure\<close>

lemma dec_500: "dec 500 = ''500''"
  by code_simp

lemma stale_result_eq:
  "run stale_result App_init =
     \<lparr> mode = Idle, fileName = ''can.png'', previewURL = ''blob:b'', result = leaf_body,
       progress = 100, error = ''Scan failed (500)'', streamRef = False, cameraPending = 0,
       timers = [], nextTimer = 2, clearCalls = [0, 1], objectURLs = [''blob:b'', ''blob:a''],
       inflight = [], toBlobPending = 0 \<rparr>"
  by (simp add: stale_result_def scenario_defs step_def handler_defs App_init_def dec_500)

text \<open>
  C9, as the specification states it: after a non-2xx status or a body that does not
  parse, mode is \<open>idle\<close>, the error is not empty and result is null. The \<^verbatim>\<open>catch\<close> block
  sets error and mode and does not touch result. In \<open>stale_result\<close> the first of two
  requests has stored its result when the second one fails with status 500: the session
  ends in \<open>idle\<close> with the message and with the first result still stored.
\<close>

theorem C9_counterexample:
  "mode (run stale_result App_init) = Idle
   \<and> error (run stale_result App_init) = ''Scan failed (500)''
   \<and> result (run stale_result App_init) = leaf_body
   \<and> result (run stale_result App_init) \<noteq> JNull"
  by (simp add: stale_result_eq leaf_body_def)

text \<open>
  C9, amended: after a rejected request, a non-2xx status or a body that does not parse,
  mode is \<open>idle\<close> and the error is not empty; result is what it was before, so it is null
  when no result was stored when the failure arrived. There is no error mode.
\<close>

theorem C9_failure_returns_to_idle:
  assumes "scan_failed fr"
  shows "mode (uploadToAPI_settle i fr s) = Idle
    \<and> error (uploadToAPI_settle i fr s) \<noteq> []
    \<and> result (uploadToAPI_settle i fr s) = result s"
  using assms by (cases fr) (auto simp: handler_defs split: sum.splits)

theorem C9_failure_returns_to_idle_witness:
  "scan_failed (Response 500 (Inl []))
   \<and> mode (uploadToAPI_settle 0 (Response 500 (Inl [])) scanning_leaf) = Idle
   \<and> error (uploadToAPI_settle 0 (Response 500 (Inl [])) scanning_leaf) \<noteq> []
   \<and> result (uploadToAPI_settle 0 (Response 500 (Inl [])) scanning_leaf) = JNull"
proof -
  have failed: "scan_failed (Response 500 (Inl []))"
    by (simp add: resp_ok_def)
  from C9_failure_returns_to_idle [OF failed, of 0 scanning_leaf] failed
  show ?thesis by (simp add: scanning_leaf_eq)
qed

section \<open>The displayed percentage\<close>

lemma Math_round_nearest:
  "p - 1 / 2 < real_of_int (Math_round p) \<and> real_of_int (Math_round p) \<le> p + 1 / 2"
proof -
  have "real_of_int \<lfloor>p + 1 / 2\<rfloor> \<le> p + 1 / 2"
    by (rule of_int_floor_le)
  moreover have "p + 1 / 2 < real_of_int \<lfloor>p + 1 / 2\<rfloor> + 1"
    by linarith
  ultimately show ?thesis
    unfolding Math_round_def by linarith
qed

text \<open>
  C10: for every progress value \<open>p\<close>, also one above 96, the percentage that
  \<^verbatim>\<open>Scanning\<close> shows is \<open>min(100, round(p))\<close>, so it is never more than 100. The rounding
  is to the nearest integer, a tie going up: below 99.5 the shown value is the one integer
  in the interval from \<open>p - 1/2\<close> (excluded) to \<open>p + 1/2\<close> (included), from 99.5 on it
  is 100; 3.5 shows as 4, 3.45 as 3, 96.5 as 97 and 102.5 as 100.
\<close>

theorem C10_displayed_percentage:
  "Scanning_percent p = min 100 (round p)
   \<and> Scanning_percent p \<le> 100
   \<and> (p < 199 / 2 \<longrightarrow>
        p - 1 / 2 < real_of_int (Scanning_percent p)
        \<and> real_of_int (Scanning_percent p) \<le> p + 1 / 2)
   \<and> (199 / 2 \<le> p \<longrightarrow> Scanning_percent p = 100)
   \<and> Scanning_percent (7 / 2) = 4 \<and> Scanning_percent (69 / 20) = 3
   \<and> Scanning_percent (193 / 2) = 97 \<and> Scanning_percent 98 = 98
   \<and> Scanning_percent (205 / 2) = 100"
proof -
  have as_round: "Scanning_percent p = min 100 (round p)"
    by (simp add: Scanning_percent_def Math_round_def round_def)
  have capped: "Scanning_percent p \<le> 100"
    by (simp add: Scanning_percent_def)
  have below: "p - 1 / 2 < real_of_int (Scanning_percent p)
      \<and> real_of_int (Scanning_percent p) \<le> p + 1 / 2" if "p < 199 / 2"
  proof -
    from that have "p + 1 / 2 < 100" by simp
    then have "\<lfloor>p + 1 / 2\<rfloor> < 100"
      by (simp add: floor_less_iff)
    then have "Scanning_percent p = Math_round p"
      by (simp add: Scanning_percent_def Math_round_def)
    with Math_round_nearest [of p] show ?thesis by simp
  qed
  have above: "Scanning_percent p = 100" if "199 / 2 \<le> p"
  proof -
    from that have "100 \<le> p + 1 / 2" by simp
    then have "100 \<le> \<lfloor>p + 1 / 2\<rfloor>"
      by (simp add: le_floor_iff)
    then show ?thesis
      by (simp add: Scanning_percent_def Math_round_def)
  qed
  have samples: "Scanning_percent (7 / 2) = 4 \<and> Scanning_percent (69 / 20) = 3
      \<and> Scanning_percent (193 / 2) = 97 \<and> Scanning_percent 98 = 98
      \<and> Scanning_percent (205 / 2) = 100"
    by (simp add: Scanning_percent_def Math_round_def)
  from as_round capped below above samples show ?thesis by blast
qed

theorem C10_displayed_percentage_witness:
  "(7 / 2 :: real) < 199 / 2
   \<and> 7 / 2 - 1 / 2 < real_of_int (Scanning_percent (7 / 2))
   \<and> real_of_int (Scanning_percent (7 / 2)) \<le> 7 / 2 + 1 / 2
   \<and> (199 / 2 :: real) \<le> 205 / 2
   \<and> Scanning_percent (205 / 2) = 100"
proof -
  have lo: "(7 / 2 :: real) < 199 / 2" by simp
  have hi: "(199 / 2 :: real) \<le> 205 / 2" by simp
  from C10_displayed_percentage [of "7 / 2"] C10_displayed_percentage [of "205 / 2"] lo hi
  show ?thesis by blast
qed

end
